theory Spec2Isabelle
  imports Complex_Main "HOL-Library.List_Lexorder" "HOL-Library.Char_ord"
begin

section \<open>JavaScript values used by the calendar code\<close>

text \<open>
  The value that \<^verbatim>\<open>res.json()\<close> resolves to is whatever JSON the body holds: the
  interfaces of \<^verbatim>\<open>types/calendar.ts\<close> are erased before the code runs and nothing
  checks the body against them. So a parsed body is a JSON value: null, a boolean, a
  number (the rational it stands for; a literal that overflows to an infinity behaves
  in this code as any other number that is not zero), a string, an array, or an
  object as the list of its properties (a name occurs once in a parsed object; in a
  list that repeats a name the first occurrence counts).
\<close>

datatype json =
  JNull
| JBool bool
| JNum rat
| JStr string
| JArr "json list"
| JObj "(string \<times> json) list"

text \<open>
  A JavaScript value in this code is a JSON value or \<^verbatim>\<open>undefined\<close> (\<open>None\<close>).
  \<open>property v k\<close> is the property \<open>k\<close> of a value other than null: the property of
  that name for an object, and \<^verbatim>\<open>undefined\<close> for an object without it and for a
  boolean, number, string or array, none of which has a property of any name the
  code reads (\<^verbatim>\<open>items\<close>, \<^verbatim>\<open>id\<close>, \<^verbatim>\<open>summary\<close>, \<^verbatim>\<open>start\<close>, \<^verbatim>\<open>end\<close>,
  \<^verbatim>\<open>description\<close>, \<^verbatim>\<open>location\<close>, \<^verbatim>\<open>dateTime\<close>, \<^verbatim>\<open>date\<close>).
\<close>

definition property :: "json \<Rightarrow> string \<Rightarrow> json option" where
  "property v k = (case v of JObj ps \<Rightarrow> map_of ps k | _ \<Rightarrow> None)"

text \<open>
  JavaScript's \<^verbatim>\<open>a || b\<close> yields \<^verbatim>\<open>a\<close> when \<^verbatim>\<open>a\<close> is truthy and \<^verbatim>\<open>b\<close>
  otherwise, and evaluates \<^verbatim>\<open>b\<close> only then. \<^verbatim>\<open>undefined\<close>, null, false, zero
  and the empty string are falsy; every other value is truthy.
\<close>

definition truthy :: "json option \<Rightarrow> bool" where
  "truthy v =
     (case v of
        None \<Rightarrow> False
      | Some JNull \<Rightarrow> False
      | Some (JBool b) \<Rightarrow> b
      | Some (JNum n) \<Rightarrow> n \<noteq> 0
      | Some (JStr s) \<Rightarrow> s \<noteq> []
      | Some (JArr xs) \<Rightarrow> True
      | Some (JObj ps) \<Rightarrow> True)"

text \<open>The same for a value that is a string or \<^verbatim>\<open>undefined\<close>.\<close>

definition truthy_str :: "string option \<Rightarrow> bool" where
  "truthy_str a = truthy (map_option JStr a)"

definition or_else :: "json option \<Rightarrow> json \<Rightarrow> json" where
  "or_else v d = (case v of None \<Rightarrow> d | Some j \<Rightarrow> (if truthy (Some j) then j else d))"

text \<open>
  A thrown value: an error object with its \<^verbatim>\<open>name\<close> (the error kind) and its
  \<^verbatim>\<open>message\<close>. \<^verbatim>\<open>new Error(msg)\<close> has the name \<^verbatim>\<open>Error\<close>; the engine throws a
  \<^verbatim>\<open>TypeError\<close> when a property of \<^verbatim>\<open>undefined\<close> or null is read and when a value
  that is not a function is called.
\<close>

record exn =
  name :: string
  message :: string

definition Error :: "string \<Rightarrow> exn" where
  "Error msg = \<lparr>name = ''Error'', message = msg\<rparr>"

definition TypeError :: "string \<Rightarrow> exn" where
  "TypeError msg = \<lparr>name = ''TypeError'', message = msg\<rparr>"

text \<open>
  Reading the property \<open>k\<close> of a value, \<^verbatim>\<open>v.k\<close>: a \<^verbatim>\<open>TypeError\<close> for
  \<^verbatim>\<open>undefined\<close> and for null (the message is the engine's wording, here Node's),
  the property otherwise.
\<close>

definition quoted :: "string \<Rightarrow> string" where
  "quoted k = [CHR 0x27] @ k @ [CHR 0x27]"

definition get :: "json option \<Rightarrow> string \<Rightarrow> exn + json option" where
  "get v k =
     (case v of
        None \<Rightarrow>
          Inl (TypeError (''Cannot read properties of undefined (reading '' @ quoted k @ '')''))
      | Some JNull \<Rightarrow>
          Inl (TypeError (''Cannot read properties of null (reading '' @ quoted k @ '')''))
      | Some j \<Rightarrow> Inr (property j k))"

text \<open>Evaluation in sequence: the first error ends it.\<close>

definition and_then :: "exn + 'a \<Rightarrow> ('a \<Rightarrow> exn + 'b) \<Rightarrow> exn + 'b" where
  "and_then r f = (case r of Inl err \<Rightarrow> Inl err | Inr x \<Rightarrow> f x)"

text \<open>
  \<^verbatim>\<open>Array.prototype.map\<close> with a callback that may throw: the elements are visited
  in order and the first error ends the call.
\<close>

fun array_map :: "('a \<Rightarrow> exn + 'b) \<Rightarrow> 'a list \<Rightarrow> exn + 'b list" where
  "array_map f [] = Inr []"
| "array_map f (x # xs) =
     and_then (f x) (\<lambda>y. and_then (array_map f xs) (\<lambda>ys. Inr (y # ys)))"

text \<open>
  The decimal rendering of a non-negative integer, as a template literal
  \<^verbatim>\<open>${res.status}\<close> produces it.
\<close>

definition digit_char :: "nat \<Rightarrow> char" where
  "digit_char d = ''0123456789'' ! d"

fun string_of_nat :: "nat \<Rightarrow> string" where
  "string_of_nat n =
     (if n < 10 then [digit_char n]
      else string_of_nat (n div 10) @ [digit_char (n mod 10)])"

declare string_of_nat.simps [simp del]

section \<open>types/calendar.ts\<close>

text \<open>
  \<^verbatim>\<open>CalendarEvent\<close>. The interface declares strings; what the code stores is the
  value it read, which is a string when the upstream sent one. \<^verbatim>\<open>id\<close>,
  \<^verbatim>\<open>description\<close> and \<^verbatim>\<open>location\<close> are copied and may be \<^verbatim>\<open>undefined\<close>;
  \<^verbatim>\<open>title\<close>, \<^verbatim>\<open>start\<close> and \<^verbatim>\<open>end\<close> end in a string literal and are always
  defined. \<^verbatim>\<open>GoogleCalendarEvent\<close> and \<^verbatim>\<open>GoogleCalendarResponse\<close> describe the
  parsed body and exist at compile time only.
\<close>

record CalendarEvent =
  id' :: "json option"
  title :: json
  start :: json
  end' :: json
  description :: "json option"
  location :: "json option"

text \<open>
  The own properties of a \<^verbatim>\<open>CalendarEvent\<close> object in declaration order, which is
  also the order of the object literal in \<^verbatim>\<open>fetchGoogleCalendarEvents\<close>.
\<close>

definition CalendarEvent_props :: "CalendarEvent \<Rightarrow> (string \<times> json option) list" where
  "CalendarEvent_props e =
     [(''id'', id' e),
      (''title'', Some (title e)),
      (''start'', Some (start e)),
      (''end'', Some (end' e)),
      (''description'', description e),
      (''location'', location e)]"

section \<open>The platform: clock, URL, fetch\<close>

text \<open>
  A request as \<^verbatim>\<open>fetch\<close> receives it: the URL without its query, the query
  parameters in order, and the headers.
\<close>

record request =
  url :: string
  searchParams :: "(string \<times> string) list"
  headers :: "(string \<times> string) list"

text \<open>
  \<^verbatim>\<open>URLSearchParams.set\<close>: the first pair with the name takes the value and the
  other pairs with the name are removed; without such a pair, the pair is appended.
\<close>

fun searchParams_set :: "string \<Rightarrow> string \<Rightarrow> (string \<times> string) list \<Rightarrow> (string \<times> string) list" where
  "searchParams_set k v [] = [(k, v)]"
| "searchParams_set k v (p # ps) =
     (if fst p = k then (k, v) # filter (\<lambda>q. fst q \<noteq> k) ps
      else p # searchParams_set k v ps)"

text \<open>
  A response as the code reads it: \<^verbatim>\<open>res.ok\<close> (the platform sets it for the
  success statuses, 200 to 299), \<^verbatim>\<open>res.status\<close> and the outcome of
  \<^verbatim>\<open>await res.json()\<close>, which rejects when the body is not JSON and resolves to the
  parsed value otherwise.
\<close>

record http_response =
  ok :: bool
  status :: nat
  json :: "exn + json"

text \<open>
  What the function reads from its surroundings: the clock at \<^verbatim>\<open>new Date()\<close>, the
  clock at \<^verbatim>\<open>Date.now()\<close> (milliseconds since the epoch, two separate readings),
  \<^verbatim>\<open>Date.prototype.toISOString\<close>, and \<^verbatim>\<open>fetch\<close>, which resolves to a response or
  rejects.
\<close>

record env =
  new_Date :: int
  Date_now :: int
  toISOString :: "int \<Rightarrow> string"
  fetch :: "request \<Rightarrow> exn + http_response"

section \<open>lib/google-calendar.ts\<close>

text \<open>Lines 6 to 19: the request that is handed to \<^verbatim>\<open>fetch\<close>.\<close>

definition build_request :: "env \<Rightarrow> string \<Rightarrow> request" where
  "build_request e accessToken =
     (let now = toISOString e (new_Date e);
          future = toISOString e (Date_now e + 90 * 24 * 60 * 60 * 1000);
          ps0 = [];
          ps1 = searchParams_set ''timeMin'' now ps0;
          ps2 = searchParams_set ''timeMax'' future ps1;
          ps3 = searchParams_set ''singleEvents'' ''true'' ps2;
          ps4 = searchParams_set ''orderBy'' ''startTime'' ps3
      in \<lparr>url = ''https://www.googleapis.com/calendar/v3/calendars/primary/events'',
          searchParams = ps4,
          headers = [(''Authorization'', ''Bearer '' @ accessToken)]\<rparr>)"

text \<open>
  Lines 30 and 31: \<^verbatim>\<open>event.start.dateTime || event.start.date || ''\<close>, and the same
  for \<^verbatim>\<open>end\<close>, with \<open>k\<close> for the name. \<^verbatim>\<open>event.start\<close> is read without a guard, so
  an event that is null, and an event whose \<^verbatim>\<open>start\<close> is missing or null, throw.
\<close>

definition time_of :: "json \<Rightarrow> string \<Rightarrow> exn + json" where
  "time_of event k =
     and_then (get (Some event) k) (\<lambda>s.
     and_then (get s ''dateTime'') (\<lambda>dt.
       if truthy dt then Inr (or_else dt (JStr ''''))
       else and_then (get (Some event) k) (\<lambda>s'.
            and_then (get s' ''date'') (\<lambda>d. Inr (or_else d (JStr ''''))))))"

text \<open>
  Lines 27 to 34: the arrow function that normalizes one upstream event. The
  properties of the object literal are evaluated in the order they are written.
\<close>

definition normalize_event :: "json \<Rightarrow> exn + CalendarEvent" where
  "normalize_event event =
     and_then (get (Some event) ''id'') (\<lambda>i.
     and_then (get (Some event) ''summary'') (\<lambda>sm.
     and_then (time_of event ''start'') (\<lambda>st.
     and_then (time_of event ''end'') (\<lambda>en.
     and_then (get (Some event) ''description'') (\<lambda>de.
     and_then (get (Some event) ''location'') (\<lambda>lo.
       Inr \<lparr>id' = i,
            title = or_else sm (JStr ''(No title)''),
            start = st,
            end' = en,
            description = de,
            location = lo\<rparr>))))))"

text \<open>
  The function, with the requests it issued beside its outcome. \<open>Inl\<close> is a
  rejection of the returned promise: a rejection of \<^verbatim>\<open>fetch\<close>, the error thrown at
  line 22, a rejection of \<^verbatim>\<open>res.json()\<close>, or a \<^verbatim>\<open>TypeError\<close> of lines 27 to 34:
  \<^verbatim>\<open>data.items\<close> for the body null, \<^verbatim>\<open>.map\<close> for a truthy \<^verbatim>\<open>items\<close> that is not
  an array (it has no function of that name), and the errors of the arrow function.
\<close>

definition fetchGoogleCalendarEvents ::
    "env \<Rightarrow> string \<Rightarrow> (exn + CalendarEvent list) \<times> request list" where
  "fetchGoogleCalendarEvents e accessToken =
     (let req = build_request e accessToken in
      (case fetch e req of
         Inl err \<Rightarrow> Inl err
       | Inr res \<Rightarrow>
           if \<not> ok res
           then Inl (Error (''Google Calendar API error: '' @ string_of_nat (status res)))
           else and_then (json res) (\<lambda>data.
                and_then (get (Some data) ''items'') (\<lambda>its.
                  case or_else its (JArr []) of
                    JArr xs \<Rightarrow> array_map normalize_event xs
                  | _ \<Rightarrow> Inl (TypeError ''(data.items || []).map is not a function''))),
       [req]))"

section \<open>app/api/events/route.ts\<close>

text \<open>
  The outcome of \<^verbatim>\<open>await auth()\<close>: a rejection, or the session it resolved to
  (\<open>None\<close> is \<^verbatim>\<open>null\<close>). \<^verbatim>\<open>auth\<close> comes from the NextAuth library, so its
  outcome is an input here. The response is the one built by \<^verbatim>\<open>NextResponse.json\<close>,
  whose status is 200 unless one is given.
\<close>

record session =
  accessToken :: "string option"

datatype body = ErrorBody string | EventsBody "CalendarEvent list"

record next_response =
  r_status :: nat
  r_body :: body

text \<open>
  The handler, with the requests it issued beside its outcome. Line 6 stands outside
  the \<^verbatim>\<open>try\<close> block, so a rejection of \<^verbatim>\<open>auth()\<close> is a rejection of the handler.
  \<^verbatim>\<open>!session?.accessToken\<close> holds for a null session, a missing token and an empty
  token.
  \<^verbatim>\<open>console.error\<close> at line 16 writes to the log and has no part in the outcome.
\<close>

definition GET :: "env \<Rightarrow> exn + session option \<Rightarrow> (exn + next_response) \<times> request list" where
  "GET e auth =
     (case auth of
        Inl err \<Rightarrow> (Inl err, [])
      | Inr sess \<Rightarrow>
          (case (case sess of None \<Rightarrow> None | Some s \<Rightarrow> accessToken s) of
             None \<Rightarrow> (Inr \<lparr>r_status = 401, r_body = ErrorBody ''Unauthorized''\<rparr>, [])
           | Some tok \<Rightarrow>
               if tok = []
               then (Inr \<lparr>r_status = 401, r_body = ErrorBody ''Unauthorized''\<rparr>, [])
               else (case fetchGoogleCalendarEvents e tok of
                       (Inr events, reqs) \<Rightarrow>
                         (Inr \<lparr>r_status = 200, r_body = EventsBody events\<rparr>, reqs)
                     | (Inl error, reqs) \<Rightarrow>
                         (Inr \<lparr>r_status = 500, r_body = ErrorBody ''Failed to fetch events''\<rparr>,
                          reqs))))"

section \<open>A concrete platform\<close>

text \<open>
  \<^verbatim>\<open>Date.prototype.toISOString\<close> on a time value in milliseconds since the epoch:
  the UTC calendar date and time of day as \<^verbatim>\<open>YYYY-MM-DDTHH:mm:ss.sssZ\<close>, with a sign
  and six digits for a year outside 0 to 9999 (the years a time value can reach
  have at most six digits). The theorems below hold for every
  \<open>toISOString\<close>; this one serves the concrete runs.
\<close>

definition pad2 :: "nat \<Rightarrow> string" where
  "pad2 n = [digit_char (n div 10 mod 10), digit_char (n mod 10)]"

definition pad3 :: "nat \<Rightarrow> string" where
  "pad3 n = digit_char (n div 100 mod 10) # pad2 n"

definition pad4 :: "nat \<Rightarrow> string" where
  "pad4 n = digit_char (n div 1000 mod 10) # pad3 n"

definition pad6 :: "nat \<Rightarrow> string" where
  "pad6 n = digit_char (n div 100000 mod 10) # digit_char (n div 10000 mod 10) # pad4 n"

definition civil_from_days :: "int \<Rightarrow> int \<times> nat \<times> nat" where
  "civil_from_days z0 =
     (let z = z0 + 719468;
          era = z div 146097;
          doe = z - era * 146097;
          yoe = (doe - doe div 1460 + doe div 36524 - doe div 146096) div 365;
          doy = doe - (365 * yoe + yoe div 4 - yoe div 100);
          mp = (5 * doy + 2) div 153;
          d = doy - (153 * mp + 2) div 5 + 1;
          m = (if mp < 10 then mp + 3 else mp - 9);
          y = yoe + era * 400 + (if m \<le> 2 then 1 else 0)
      in (y, nat m, nat d))"

definition toISOString_utc :: "int \<Rightarrow> string" where
  "toISOString_utc t =
     (let ms = nat (t mod 86400000);
          (y, m, d) = civil_from_days (t div 86400000);
          year = (if 0 \<le> y \<and> y \<le> 9999 then pad4 (nat y)
                  else (if y < 0 then ''-'' else ''+'') @ pad6 (nat \<bar>y\<bar>))
      in year @ ''-'' @ pad2 m @ ''-'' @ pad2 d @ ''T'' @
         pad2 (ms div 3600000) @ '':'' @ pad2 (ms div 60000 mod 60) @ '':'' @
         pad2 (ms div 1000 mod 60) @ ''.'' @ pad3 (ms mod 1000) @ ''Z'')"

text \<open>
  A platform whose clock reads 2024-01-01T00:00:00.000Z at \<^verbatim>\<open>new Date()\<close> and two
  milliseconds later at \<^verbatim>\<open>Date.now()\<close>, and whose \<^verbatim>\<open>fetch\<close> settles with \<open>r\<close>.
\<close>

definition platform :: "exn + http_response \<Rightarrow> env" where
  "platform r =
     \<lparr>new_Date = 1704067200000, Date_now = 1704067200002,
      toISOString = toISOString_utc, fetch = (\<lambda>req. r)\<rparr>"

text \<open>
  The upstream events of the repository's tests, an event without start and end, and
  responses that carry a body.
\<close>

definition meeting :: json where
  "meeting =
     JObj [(''id'', JStr ''1''), (''summary'', JStr ''Meeting''),
           (''start'', JObj [(''dateTime'', JStr ''2024-01-01T10:00:00Z'')]),
           (''end'', JObj [(''dateTime'', JStr ''2024-01-01T11:00:00Z'')])]"

definition untitled :: json where
  "untitled =
     JObj [(''id'', JStr ''2''),
           (''start'', JObj [(''dateTime'', JStr ''2024-01-02T10:00:00Z'')]),
           (''end'', JObj [(''dateTime'', JStr ''2024-01-02T11:00:00Z'')])]"

definition all_day :: json where
  "all_day =
     JObj [(''id'', JStr ''3''), (''summary'', JStr ''All Day Event''),
           (''start'', JObj [(''date'', JStr ''2024-01-03'')]),
           (''end'', JObj [(''date'', JStr ''2024-01-04'')])]"

definition cancelled :: json where
  "cancelled = JObj [(''id'', JStr ''9''), (''summary'', JStr ''Cancelled'')]"

definition items_body :: "json list \<Rightarrow> json" where
  "items_body xs = JObj [(''items'', JArr xs)]"

definition ok_response :: "json \<Rightarrow> http_response" where
  "ok_response body = \<lparr>ok = True, status = 200, json = Inr body\<rparr>"

definition error_response :: "nat \<Rightarrow> http_response" where
  "error_response n =
     \<lparr>ok = False, status = n,
      json = Inl \<lparr>name = ''SyntaxError'', message = ''Unexpected end of JSON input''\<rparr>\<rparr>"

section \<open>The bodies on which the function returns, and the provider's start\<close>

text \<open>
  A value whose properties can be read: neither \<^verbatim>\<open>undefined\<close> nor null.
\<close>

definition readable :: "json option \<Rightarrow> bool" where
  "readable v = (v \<noteq> None \<and> v \<noteq> Some JNull)"

text \<open>
  An item that the arrow function can normalize: it is not null, and its
  \<^verbatim>\<open>start\<close> and its \<^verbatim>\<open>end\<close> are neither missing nor null.
\<close>

definition event_ok :: "json \<Rightarrow> bool" where
  "event_ok event =
     (event \<noteq> JNull \<and> readable (property event ''start'') \<and> readable (property event ''end''))"

text \<open>
  A parsed body that the function can normalize: it is not null, its \<^verbatim>\<open>items\<close> is
  falsy (missing, null, false, zero or empty) or an array, and every item of the array
  can be normalized.
\<close>

definition conforms :: "json \<Rightarrow> bool" where
  "conforms body =
     (body \<noteq> JNull \<and>
      (case property body ''items'' of
         Some (JArr xs) \<Rightarrow> list_all event_ok xs
       | _ \<Rightarrow> \<not> truthy (property body ''items'')))"

text \<open>
  The property \<open>k2\<close> of the property \<open>k1\<close> of an item, \<^verbatim>\<open>undefined\<close> when either is
  missing.
\<close>

definition subproperty :: "json \<Rightarrow> string \<Rightarrow> string \<Rightarrow> json option" where
  "subproperty event k1 k2 =
     (case property event k1 of None \<Rightarrow> None | Some s \<Rightarrow> property s k2)"

text \<open>
  The time that the provider reports for an item under the name \<open>k\<close> (\<^verbatim>\<open>start\<close> or
  \<^verbatim>\<open>end\<close>), read from the item's own \<^verbatim>\<open>dateTime\<close> and \<^verbatim>\<open>date\<close>: the
  \<^verbatim>\<open>dateTime\<close> of a timed event, the \<^verbatim>\<open>date\<close> of an all-day event, and the empty
  string when the item has neither. A missing or empty value counts as none.
\<close>

definition provider_time :: "json \<Rightarrow> string \<Rightarrow> json" where
  "provider_time event k =
     (if truthy (subproperty event k ''dateTime'')
      then or_else (subproperty event k ''dateTime'') (JStr '''')
      else if truthy (subproperty event k ''date'')
      then or_else (subproperty event k ''date'') (JStr '''')
      else JStr '''')"

definition provider_start :: "json \<Rightarrow> json" where
  "provider_start event = provider_time event ''start''"

text \<open>
  The event that the arrow function returns for an item it can normalize, written
  without the reads that may throw; \<open>normalize_event_ok\<close> below proves that it is.
\<close>

definition event_of :: "json \<Rightarrow> CalendarEvent" where
  "event_of event =
     \<lparr>id' = property event ''id'',
      title = or_else (property event ''summary'') (JStr ''(No title)''),
      start = provider_time event ''start'',
      end' = provider_time event ''end'',
      description = property event ''description'',
      location = property event ''location''\<rparr>"

text \<open>
  An order of start values for the concrete runs: two strings in the format of the
  provider compare as their characters do.
\<close>

definition earlier :: "json \<Rightarrow> json \<Rightarrow> bool" where
  "earlier a b = (case (a, b) of (JStr s, JStr t) \<Rightarrow> s < t | _ \<Rightarrow> False)"

section \<open>Reading the status back from the error message\<close>

definition digit_val :: "char \<Rightarrow> nat" where
  "digit_val c = of_char c - 48"

definition nat_of_string :: "string \<Rightarrow> nat" where
  "nat_of_string s = foldl (\<lambda>acc c. 10 * acc + digit_val c) 0 s"

section \<open>The Event Reconciler\<close>

text \<open>
  Modelled from the spec: the source of an event (section 3), one of local, google and
  icloud. The repository has no code for the reconciler or for the data it works on.
\<close>

datatype event_source = Local | Google | ICloud

text \<open>
  Modelled from the spec: the normalized event of section 3, which the repository's
  \<^verbatim>\<open>CalendarEvent\<close> does not implement (it has no user, source, foreign id or
  update time). \<open>sourceEventId\<close> is the foreign system's id.
\<close>

record SyncEvent =
  sync_id :: string
  userId :: string
  sync_title :: string
  startAt :: string
  endAt :: string
  sync_description :: "string option"
  sync_location :: "string option"
  source :: event_source
  sourceEventId :: "string option"
  updatedAt :: int


text \<open>
  Modelled from the spec: the events that take part in reconciliation (section 4.2);
  events with the source local are never part of a changeset.
\<close>

definition from_provider :: "SyncEvent \<Rightarrow> bool" where
  "from_provider ev = (source ev \<noteq> Local)"

text \<open>
  Modelled from the spec: a field difference (section 4.2), in title, start, end,
  description or location.
\<close>

definition differs :: "SyncEvent \<Rightarrow> SyncEvent \<Rightarrow> bool" where
  "differs s f =
     (sync_title s \<noteq> sync_title f \<or> startAt s \<noteq> startAt f \<or> endAt s \<noteq> endAt f \<or>
      sync_description s \<noteq> sync_description f \<or> sync_location s \<noteq> sync_location f)"


text \<open>
  Modelled from the spec: an update (section 4.2) is a full replace of the compared
  fields with \<open>updatedAt\<close> refreshed; the stored event keeps its identity, its user,
  its source and its key.
\<close>

definition replace_with :: "int \<Rightarrow> SyncEvent \<Rightarrow> SyncEvent \<Rightarrow> SyncEvent" where
  "replace_with now s u =
     s\<lparr>sync_title := sync_title u, startAt := startAt u, endAt := endAt u,
       sync_description := sync_description u, sync_location := sync_location u,
       updatedAt := now\<rparr>"







section \<open>Facts about the decimal rendering\<close>

lemma digit_val_digit_char: "d < 10 \<Longrightarrow> digit_val (digit_char d) = d"
proof -
  assume "d < 10"
  then have "d \<in> {0, 1, 2, 3, 4, 5, 6, 7, 8, 9}" by auto
  then show ?thesis
    by (auto simp: digit_val_def digit_char_def)
qed

lemma nat_of_string_snoc: "nat_of_string (s @ [c]) = 10 * nat_of_string s + digit_val c"
  by (simp add: nat_of_string_def)

lemma nat_of_string_of_nat: "nat_of_string (string_of_nat n) = n"
proof (induction n rule: string_of_nat.induct)
  case (1 n)
  show ?case
  proof (cases "n < 10")
    case True
    then show ?thesis
      by (simp add: string_of_nat.simps [of n] nat_of_string_def digit_val_digit_char)
  next
    case False
    then have "nat_of_string (string_of_nat n) = 10 * (n div 10) + n mod 10"
      using 1 by (simp add: string_of_nat.simps [of n] nat_of_string_snoc digit_val_digit_char)
    then show ?thesis by simp
  qed
qed

lemma string_of_nat_inject: "string_of_nat m = string_of_nat n \<longleftrightarrow> m = n"
  using nat_of_string_of_nat by metis

section \<open>Facts about \<open>fetchGoogleCalendarEvents\<close>\<close>

lemma and_then_Inl [simp]: "and_then (Inl err) f = Inl err"
  by (simp add: and_then_def)

lemma and_then_Inr [simp]: "and_then (Inr x) f = f x"
  by (simp add: and_then_def)

lemma get_readable: "readable (Some j) \<Longrightarrow> get (Some j) k = Inr (property j k)"
  by (cases j) (simp_all add: get_def readable_def)

lemma get_unreadable:
  "\<not> readable v \<Longrightarrow> \<exists>err. get v k = Inl err \<and> name err = ''TypeError''"
  by (auto simp: get_def readable_def TypeError_def split: option.splits)

lemma readable_Some: "readable (Some j) \<longleftrightarrow> j \<noteq> JNull"
  by (simp add: readable_def)

lemma truthy_or_else: "truthy (Some j) \<Longrightarrow> or_else (Some j) d = j"
  by (simp add: or_else_def)

lemma time_of_ok:
  assumes "event \<noteq> JNull" and "readable (property event k)"
  shows "time_of event k = Inr (provider_time event k)"
proof -
  from assms(2) obtain s where s: "property event k = Some s" "s \<noteq> JNull"
    by (auto simp: readable_def)
  have g: "get (Some event) k = Inr (Some s)"
    using assms(1) s(1) by (simp add: get_readable readable_Some)
  have g2: "get (Some s) k2 = Inr (property s k2)" for k2
    using s(2) by (simp add: get_readable readable_Some)
  show ?thesis
    by (simp add: time_of_def g g2 provider_time_def subproperty_def s(1) or_else_def truthy_def
        split: option.splits)
qed

lemma time_of_fail:
  assumes "event = JNull \<or> \<not> readable (property event k)"
  shows "\<exists>err. time_of event k = Inl err \<and> name err = ''TypeError''"
proof (cases "event = JNull")
  case True
  then show ?thesis by (simp add: time_of_def get_def TypeError_def)
next
  case False
  then have g: "get (Some event) k = Inr (property event k)"
    by (simp add: get_readable readable_Some)
  from False assms have "\<not> readable (property event k)" by simp
  from get_unreadable [OF this] obtain err
    where "get (property event k) ''dateTime'' = Inl err" "name err = ''TypeError''" by blast
  then show ?thesis by (simp add: time_of_def g)
qed


lemma normalize_event_ok:
  assumes "event_ok event"
  shows "normalize_event event = Inr (event_of event)"
proof -
  from assms have n: "event \<noteq> JNull" and rs: "readable (property event ''start'')"
    and re: "readable (property event ''end'')"
    by (simp_all add: event_ok_def)
  have g: "get (Some event) k = Inr (property event k)" for k
    using n by (simp add: get_readable readable_Some)
  show ?thesis
    by (simp add: normalize_event_def g time_of_ok [OF n rs] time_of_ok [OF n re] event_of_def)
qed

lemma normalize_event_fail:
  assumes "\<not> event_ok event"
  shows "\<exists>err. normalize_event event = Inl err \<and> name err = ''TypeError''"
proof (cases "event = JNull")
  case True
  then show ?thesis by (simp add: normalize_event_def get_def TypeError_def)
next
  case False
  then have g: "get (Some event) k = Inr (property event k)" for k
    by (simp add: get_readable readable_Some)
  show ?thesis
  proof (cases "readable (property event ''start'')")
    case False
    with time_of_fail [of event "''start''"] obtain err
      where "time_of event ''start'' = Inl err" "name err = ''TypeError''" by blast
    then show ?thesis by (simp add: normalize_event_def g)
  next
    case True
    with assms \<open>event \<noteq> JNull\<close> have "\<not> readable (property event ''end'')"
      by (simp add: event_ok_def)
    with time_of_fail [of event "''end''"] obtain err
      where "time_of event ''end'' = Inl err" "name err = ''TypeError''" by blast
    then show ?thesis
      by (simp add: normalize_event_def g time_of_ok [OF \<open>event \<noteq> JNull\<close> True])
  qed
qed

lemma array_map_normalize_ok:
  "list_all event_ok xs \<Longrightarrow> array_map normalize_event xs = Inr (map event_of xs)"
  by (induction xs) (simp_all add: normalize_event_ok)

lemma array_map_normalize_fail:
  "\<not> list_all event_ok xs \<Longrightarrow>
   \<exists>err. array_map normalize_event xs = Inl err \<and> name err = ''TypeError''"
proof (induction xs)
  case Nil
  then show ?case by simp
next
  case (Cons x xs)
  show ?case
  proof (cases "event_ok x")
    case False
    from normalize_event_fail [OF this] show ?thesis by auto
  next
    case True
    with Cons.prems have "\<not> list_all event_ok xs" by simp
    from Cons.IH [OF this] show ?thesis
      by (auto simp: normalize_event_ok [OF True])
  qed
qed

lemma outcome_fetch_rejected:
  "fetch e (build_request e tok) = Inl err \<Longrightarrow> fst (fetchGoogleCalendarEvents e tok) = Inl err"
  by (simp add: fetchGoogleCalendarEvents_def Let_def)

lemma outcome_not_ok:
  "fetch e (build_request e tok) = Inr res \<Longrightarrow> \<not> ok res \<Longrightarrow>
   fst (fetchGoogleCalendarEvents e tok) =
     Inl (Error (''Google Calendar API error: '' @ string_of_nat (status res)))"
  by (simp add: fetchGoogleCalendarEvents_def Let_def)

lemma outcome_json_rejected:
  "fetch e (build_request e tok) = Inr res \<Longrightarrow> ok res \<Longrightarrow> json res = Inl err \<Longrightarrow>
   fst (fetchGoogleCalendarEvents e tok) = Inl err"
  by (simp add: fetchGoogleCalendarEvents_def Let_def)

lemma outcome_parsed:
  "fetch e (build_request e tok) = Inr res \<Longrightarrow> ok res \<Longrightarrow> json res = Inr body \<Longrightarrow>
   fst (fetchGoogleCalendarEvents e tok) =
     and_then (get (Some body) ''items'') (\<lambda>its.
       case or_else its (JArr []) of
         JArr xs \<Rightarrow> array_map normalize_event xs
       | _ \<Rightarrow> Inl (TypeError ''(data.items || []).map is not a function''))"
  by (simp add: fetchGoogleCalendarEvents_def Let_def)

lemma conforms_items:
  "property body ''items'' = Some (JArr xs) \<Longrightarrow> conforms body \<longleftrightarrow> body \<noteq> JNull \<and> list_all event_ok xs"
  by (simp add: conforms_def)

lemma conforms_no_items:
  "\<not> truthy (property body ''items'') \<Longrightarrow> conforms body \<longleftrightarrow> body \<noteq> JNull"
  by (auto simp: conforms_def truthy_def split: option.splits json.splits)

lemma outcome_items:
  assumes "fetch e (build_request e tok) = Inr res" and "ok res" and "json res = Inr body"
    and "conforms body" and "property body ''items'' = Some (JArr xs)"
  shows "fst (fetchGoogleCalendarEvents e tok) = Inr (map event_of xs)"
proof -
  from assms(4,5) have n: "body \<noteq> JNull" and a: "list_all event_ok xs"
    by (simp_all add: conforms_items)
  show ?thesis
    by (simp add: outcome_parsed [OF assms(1-3)] get_readable readable_Some n assms(5)
        or_else_def truthy_def array_map_normalize_ok [OF a])
qed

lemma outcome_no_items:
  assumes "fetch e (build_request e tok) = Inr res" and "ok res" and "json res = Inr body"
    and "body \<noteq> JNull" and "\<not> truthy (property body ''items'')"
  shows "fst (fetchGoogleCalendarEvents e tok) = Inr []"
proof -
  have "or_else (property body ''items'') (JArr []) = JArr []"
    using assms(5) by (auto simp: or_else_def split: option.splits)
  then show ?thesis
    by (simp add: outcome_parsed [OF assms(1-3)] get_readable readable_Some assms(4))
qed

lemma outcome_conforming:
  assumes "fetch e (build_request e tok) = Inr res" and "ok res" and "json res = Inr body"
    and "conforms body"
  shows "\<not> isl (fst (fetchGoogleCalendarEvents e tok))"
proof (cases "truthy (property body ''items'')")
  case False
  with assms(4) have "body \<noteq> JNull" by (simp add: conforms_no_items)
  from outcome_no_items [OF assms(1-3) this False] show ?thesis by simp
next
  case True
  with assms(4) obtain xs where "property body ''items'' = Some (JArr xs)"
    by (auto simp: conforms_def split: option.splits json.splits)
  from outcome_items [OF assms this] show ?thesis by simp
qed

lemma outcome_not_conforming:
  assumes "fetch e (build_request e tok) = Inr res" and "ok res" and "json res = Inr body"
    and "\<not> conforms body"
  shows "\<exists>err. fst (fetchGoogleCalendarEvents e tok) = Inl err \<and> name err = ''TypeError''"
proof (cases "body = JNull")
  case True
  then show ?thesis
    by (simp add: outcome_parsed [OF assms(1-3)] get_def TypeError_def)
next
  case False
  then have g: "get (Some body) ''items'' = Inr (property body ''items'')"
    by (simp add: get_readable readable_Some)
  from False assms(4) have t: "truthy (property body ''items'')"
    using conforms_no_items by blast
  then obtain j where j: "property body ''items'' = Some j" "or_else (Some j) (JArr []) = j"
    by (auto simp: truthy_def or_else_def split: option.splits)
  show ?thesis
  proof (cases j)
    case (JArr xs)
    with assms(4) False j have "\<not> list_all event_ok xs" by (simp add: conforms_items)
    from array_map_normalize_fail [OF this] show ?thesis
      by (simp add: outcome_parsed [OF assms(1-3)] g j(1) JArr or_else_def truthy_def)
  qed (use t j(1) in \<open>simp_all add: outcome_parsed [OF assms(1-3)] g TypeError_def
        or_else_def truthy_def\<close>)
qed

lemma requests_issued: "snd (fetchGoogleCalendarEvents e tok) = [build_request e tok]"
  by (simp add: fetchGoogleCalendarEvents_def Let_def)

lemma searchParams_build_request:
  "searchParams (build_request e tok) =
     [(''timeMin'', toISOString e (new_Date e)),
      (''timeMax'', toISOString e (Date_now e + 90 * 24 * 60 * 60 * 1000)),
      (''singleEvents'', ''true''),
      (''orderBy'', ''startTime'')]"
  by (simp add: build_request_def Let_def)

section \<open>Facts about the concrete platform\<close>

lemma platform_sel:
  "fetch (platform r) req = r" "new_Date (platform r) = 1704067200000"
  "Date_now (platform r) = 1704067200002" "toISOString (platform r) = toISOString_utc"
  by (simp_all add: platform_def)

lemma civil_19723: "civil_from_days 19723 = (2024, 1, 1)"
  unfolding civil_from_days_def Let_def by simp

lemma civil_19813: "civil_from_days 19813 = (2024, 3, 31)"
  unfolding civil_from_days_def Let_def by simp

lemma toISOString_utc_timeMin: "toISOString_utc 1704067200000 = ''2024-01-01T00:00:00.000Z''"
  unfolding toISOString_utc_def Let_def
  by (simp add: civil_19723 pad2_def pad3_def pad4_def digit_char_def)

lemma toISOString_utc_timeMax: "toISOString_utc 1711843200002 = ''2024-03-31T00:00:00.002Z''"
  unfolding toISOString_utc_def Let_def
  by (simp add: civil_19813 pad2_def pad3_def pad4_def digit_char_def)

lemma request_on_platform:
  "build_request (platform r) ''fake-token'' =
     \<lparr>url = ''https://www.googleapis.com/calendar/v3/calendars/primary/events'',
      searchParams =
        [(''timeMin'', ''2024-01-01T00:00:00.000Z''),
         (''timeMax'', ''2024-03-31T00:00:00.002Z''),
         (''singleEvents'', ''true''),
         (''orderBy'', ''startTime'')],
      headers = [(''Authorization'', ''Bearer fake-token'')]\<rparr>"
  unfolding build_request_def Let_def by (simp add: platform_sel toISOString_utc_timeMin toISOString_utc_timeMax)

lemma string_of_nat_401: "string_of_nat 401 = ''401''"
  by (simp add: string_of_nat.simps digit_char_def)

lemma string_of_nat_500: "string_of_nat 500 = ''500''"
  by (simp add: string_of_nat.simps digit_char_def)

section \<open>Facts about the reconciler\<close>

lemma key_replace_with [simp]: "sourceEventId (replace_with now s u) = sourceEventId s"
  by (simp add: replace_with_def)

lemma from_provider_replace_with [simp]:
  "from_provider (replace_with now s u) = from_provider s"
  by (simp add: replace_with_def from_provider_def)

lemma differs_replace_with [simp]: "differs (replace_with now s u) f = differs u f"
  by (simp add: replace_with_def differs_def)

lemma differs_refl [simp]: "\<not> differs f f"
  by (simp add: differs_def)















section \<open>Facts about the concrete events and bodies\<close>

lemma fetch_platform_ok:
  "fetch (platform (Inr (ok_response body))) req = Inr (ok_response body)"
  "ok (ok_response body)"
  "json (ok_response body) = Inr body"
  by (simp_all add: platform_sel ok_response_def)

lemma property_items_body: "property (items_body xs) ''items'' = Some (JArr xs)"
  by (simp add: items_body_def property_def)

lemma conforms_items_body: "conforms (items_body xs) = list_all event_ok xs"
  by (simp add: conforms_items [OF property_items_body]) (simp add: items_body_def)

lemma outcome_platform_items:
  "list_all event_ok xs \<Longrightarrow>
   fst (fetchGoogleCalendarEvents (platform (Inr (ok_response (items_body xs)))) tok)
     = Inr (map event_of xs)"
  using outcome_items [OF fetch_platform_ok _ property_items_body]
  by (simp add: conforms_items_body)

lemma event_ok_meeting: "event_ok meeting"
  by (simp add: event_ok_def meeting_def property_def readable_def)

lemma event_ok_untitled: "event_ok untitled"
  by (simp add: event_ok_def untitled_def property_def readable_def)

lemma event_ok_all_day: "event_ok all_day"
  by (simp add: event_ok_def all_day_def property_def readable_def)

lemma not_event_ok_cancelled: "\<not> event_ok cancelled"
  by (simp add: event_ok_def cancelled_def property_def readable_def)

lemma event_of_meeting:
  "event_of meeting =
     \<lparr>id' = Some (JStr ''1''), title = JStr ''Meeting'', start = JStr ''2024-01-01T10:00:00Z'',
      end' = JStr ''2024-01-01T11:00:00Z'', description = None, location = None\<rparr>"
  by (simp add: event_of_def meeting_def property_def provider_time_def subproperty_def
      or_else_def truthy_def)

lemma event_of_untitled:
  "event_of untitled =
     \<lparr>id' = Some (JStr ''2''), title = JStr ''(No title)'', start = JStr ''2024-01-02T10:00:00Z'',
      end' = JStr ''2024-01-02T11:00:00Z'', description = None, location = None\<rparr>"
  by (simp add: event_of_def untitled_def property_def provider_time_def subproperty_def
      or_else_def truthy_def)

lemma event_of_all_day:
  "event_of all_day =
     \<lparr>id' = Some (JStr ''3''), title = JStr ''All Day Event'', start = JStr ''2024-01-03'',
      end' = JStr ''2024-01-04'', description = None, location = None\<rparr>"
  by (simp add: event_of_def all_day_def property_def provider_time_def subproperty_def
      or_else_def truthy_def)

lemma provider_start_meeting: "provider_start meeting = JStr ''2024-01-01T10:00:00Z''"
  by (simp add: provider_start_def provider_time_def subproperty_def property_def meeting_def
      or_else_def truthy_def)

lemma provider_start_all_day: "provider_start all_day = JStr ''2024-01-03''"
  by (simp add: provider_start_def provider_time_def subproperty_def property_def all_day_def
      or_else_def truthy_def)


section \<open>Claims about \<open>fetchGoogleCalendarEvents\<close>\<close>

subsection \<open>C1: the status check\<close>

text \<open>
  Claim C1 says that the function does not throw for any response with a success
  status. A response with \<^verbatim>\<open>ok\<close> set and status 200 whose body is not JSON makes
  \<^verbatim>\<open>res.json()\<close> reject, and the function rejects with that error.
\<close>

theorem ok_response_with_unparsable_body_throws:
  "fst (fetchGoogleCalendarEvents
          (platform (Inr \<lparr>ok = True, status = 200,
             json = Inl \<lparr>name = ''SyntaxError'', message = ''Unexpected end of JSON input''\<rparr>\<rparr>))
          ''fake-token'')
     = Inl \<lparr>name = ''SyntaxError'', message = ''Unexpected end of JSON input''\<rparr>"
  by (simp add: fetchGoogleCalendarEvents_def Let_def platform_sel)

text \<open>
  Claim C1, amended. For every response whose \<^verbatim>\<open>ok\<close> flag is not set the function
  throws an \<^verbatim>\<open>Error\<close> whose message ends in the decimal status code of the response,
  from which the code can be read back, and returns no events. For a response whose
  \<^verbatim>\<open>ok\<close> flag is set, the function does not throw exactly when the body parses to
  a value that can be normalized: a value other than null, whose \<^verbatim>\<open>items\<close> is
  missing, falsy or an array, each item of which is not null and has a \<^verbatim>\<open>start\<close> and
  an \<^verbatim>\<open>end\<close> that are neither missing nor null. It then returns one event for each
  item, and the empty list without an array. On every other parsed body it throws a \<^verbatim>\<open>TypeError\<close>, and when the body does
  not parse it throws the error of \<^verbatim>\<open>res.json()\<close>.
\<close>

theorem status_check:
  "fetch e (build_request e tok) = Inr res \<Longrightarrow>
   (\<not> ok res \<longrightarrow>
      fst (fetchGoogleCalendarEvents e tok)
        = Inl \<lparr>name = ''Error'',
               message = ''Google Calendar API error: '' @ string_of_nat (status res)\<rparr> \<and>
      nat_of_string
        (drop (length ''Google Calendar API error: '')
           (message (projl (fst (fetchGoogleCalendarEvents e tok)))))
        = status res) \<and>
   (ok res \<longrightarrow>
      (\<forall>body. json res = Inr body \<longrightarrow>
         (\<not> isl (fst (fetchGoogleCalendarEvents e tok)) \<longleftrightarrow> conforms body) \<and>
         (\<forall>xs. conforms body \<and> property body ''items'' = Some (JArr xs) \<longrightarrow>
            length (projr (fst (fetchGoogleCalendarEvents e tok))) = length xs) \<and>
         (conforms body \<and> \<not> truthy (property body ''items'') \<longrightarrow>
            fst (fetchGoogleCalendarEvents e tok) = Inr []) \<and>
         (\<not> conforms body \<longrightarrow>
            name (projl (fst (fetchGoogleCalendarEvents e tok))) = ''TypeError'')) \<and>
      (\<forall>err. json res = Inl err \<longrightarrow> fst (fetchGoogleCalendarEvents e tok) = Inl err))"
proof (intro conjI impI allI)
  assume f: "fetch e (build_request e tok) = Inr res"
  {
    assume "\<not> ok res"
    then show "fst (fetchGoogleCalendarEvents e tok)
        = Inl \<lparr>name = ''Error'',
               message = ''Google Calendar API error: '' @ string_of_nat (status res)\<rparr>"
      and "nat_of_string
        (drop (length ''Google Calendar API error: '')
           (message (projl (fst (fetchGoogleCalendarEvents e tok)))))
        = status res"
      by (simp_all add: outcome_not_ok [OF f] Error_def nat_of_string_of_nat)
  }
  {
    fix body assume p: "ok res" "json res = Inr body"
    show "\<not> isl (fst (fetchGoogleCalendarEvents e tok)) \<longleftrightarrow> conforms body"
      using outcome_conforming [OF f p] outcome_not_conforming [OF f p]
      by (cases "conforms body") auto
    {
      fix xs assume "conforms body \<and> property body ''items'' = Some (JArr xs)"
      then show "length (projr (fst (fetchGoogleCalendarEvents e tok))) = length xs"
        using outcome_items [OF f p] by auto
    }
    {
      assume "conforms body \<and> \<not> truthy (property body ''items'')"
      then show "fst (fetchGoogleCalendarEvents e tok) = Inr []"
        using outcome_no_items [OF f p] conforms_no_items by blast
    }
    {
      assume "\<not> conforms body"
      then show "name (projl (fst (fetchGoogleCalendarEvents e tok))) = ''TypeError''"
        using outcome_not_conforming [OF f p] by auto
    }
  }
  {
    fix err assume "ok res" "json res = Inl err"
    then show "fst (fetchGoogleCalendarEvents e tok) = Inl err"
      by (rule outcome_json_rejected [OF f])
  }
qed

theorem status_check_witness:
  "fetch (platform (Inr (error_response 401)))
       (build_request (platform (Inr (error_response 401))) ''bad-token'')
     = Inr (error_response 401) \<and>
   \<not> ok (error_response 401) \<and>
   fst (fetchGoogleCalendarEvents (platform (Inr (error_response 401))) ''bad-token'')
     = Inl \<lparr>name = ''Error'', message = ''Google Calendar API error: 401''\<rparr> \<and>
   nat_of_string (drop (length ''Google Calendar API error: '')
      (message (projl (fst (fetchGoogleCalendarEvents (platform (Inr (error_response 401)))
         ''bad-token'')))))
     = 401 \<and>
   fetch (platform (Inr (ok_response (items_body [meeting]))))
       (build_request (platform (Inr (ok_response (items_body [meeting])))) ''fake-token'')
     = Inr (ok_response (items_body [meeting])) \<and>
   ok (ok_response (items_body [meeting])) \<and>
   json (ok_response (items_body [meeting])) = Inr (items_body [meeting]) \<and>
   conforms (items_body [meeting]) \<and>
   \<not> isl (fst (fetchGoogleCalendarEvents
      (platform (Inr (ok_response (items_body [meeting])))) ''fake-token'')) \<and>
   length (projr (fst (fetchGoogleCalendarEvents
      (platform (Inr (ok_response (items_body [meeting])))) ''fake-token''))) = 1 \<and>
   json (ok_response (items_body [meeting, cancelled])) = Inr (items_body [meeting, cancelled]) \<and>
   \<not> conforms (items_body [meeting, cancelled]) \<and>
   isl (fst (fetchGoogleCalendarEvents
      (platform (Inr (ok_response (items_body [meeting, cancelled])))) ''fake-token'')) \<and>
   name (projl (fst (fetchGoogleCalendarEvents
      (platform (Inr (ok_response (items_body [meeting, cancelled])))) ''fake-token'')))
     = ''TypeError''"
  using status_check [of "platform (Inr (error_response 401))" "''bad-token''" "error_response 401"]
    status_check [of "platform (Inr (ok_response (items_body [meeting])))" "''fake-token''"
      "ok_response (items_body [meeting])"]
    status_check [of "platform (Inr (ok_response (items_body [meeting, cancelled])))"
      "''fake-token''" "ok_response (items_body [meeting, cancelled])"]
  by (simp add: fetch_platform_ok platform_sel error_response_def string_of_nat_401
      nat_of_string_of_nat [of 401, unfolded string_of_nat_401]
      conforms_items_body property_items_body event_ok_meeting not_event_ok_cancelled)

subsection \<open>C2: date-only starts and ends\<close>




subsection \<open>C3: the title\<close>

text \<open>
  Claim C3. For every upstream event without a \<^verbatim>\<open>summary\<close>, or with an empty one,
  the normalized event has the title \<^verbatim>\<open>(No title)\<close>; for every upstream event
  with a summary that is not empty, the title is that summary. This is said of the
  i-th item of every body on which the function returns.
\<close>

theorem missing_summary_title:
  assumes "fetch e (build_request e tok) = Inr res" and "ok res" and "json res = Inr body"
    and "conforms body" and "property body ''items'' = Some (JArr xs)" and "i < length xs"
  shows "\<not> isl (fst (fetchGoogleCalendarEvents e tok)) \<and>
     length (projr (fst (fetchGoogleCalendarEvents e tok))) = length xs \<and>
     (property (xs ! i) ''summary'' = None \<or> property (xs ! i) ''summary'' = Some (JStr [])
        \<longrightarrow> title (projr (fst (fetchGoogleCalendarEvents e tok)) ! i) = JStr ''(No title)'') \<and>
     (\<forall>s. property (xs ! i) ''summary'' = Some (JStr s) \<and> s \<noteq> []
        \<longrightarrow> title (projr (fst (fetchGoogleCalendarEvents e tok)) ! i) = JStr s)"
  using assms(6)
  by (auto simp: outcome_items [OF assms(1-5)] event_of_def or_else_def truthy_def)

theorem missing_summary_title_witness:
  "fetch (platform (Inr (ok_response (items_body [meeting, untitled]))))
       (build_request (platform (Inr (ok_response (items_body [meeting, untitled])))) ''fake-token'')
     = Inr (ok_response (items_body [meeting, untitled])) \<and>
   ok (ok_response (items_body [meeting, untitled])) \<and>
   json (ok_response (items_body [meeting, untitled])) = Inr (items_body [meeting, untitled]) \<and>
   conforms (items_body [meeting, untitled]) \<and>
   property (items_body [meeting, untitled]) ''items'' = Some (JArr [meeting, untitled]) \<and>
   (1::nat) < length [meeting, untitled] \<and>
   property ([meeting, untitled] ! 1) ''summary'' = None \<and>
   property ([meeting, untitled] ! 0) ''summary'' = Some (JStr ''Meeting'') \<and>
   \<not> isl (fst (fetchGoogleCalendarEvents
                (platform (Inr (ok_response (items_body [meeting, untitled])))) ''fake-token'')) \<and>
   title (projr (fst (fetchGoogleCalendarEvents
                (platform (Inr (ok_response (items_body [meeting, untitled])))) ''fake-token'')) ! 1)
     = JStr ''(No title)'' \<and>
   title (projr (fst (fetchGoogleCalendarEvents
                (platform (Inr (ok_response (items_body [meeting, untitled])))) ''fake-token'')) ! 0)
     = JStr ''Meeting''"
  using missing_summary_title [of "platform (Inr (ok_response (items_body [meeting, untitled])))"
      "''fake-token''" "ok_response (items_body [meeting, untitled])"
      "items_body [meeting, untitled]" "[meeting, untitled]" 1]
    missing_summary_title [of "platform (Inr (ok_response (items_body [meeting, untitled])))"
      "''fake-token''" "ok_response (items_body [meeting, untitled])"
      "items_body [meeting, untitled]" "[meeting, untitled]" 0]
  by (simp add: fetch_platform_ok conforms_items_body property_items_body event_ok_meeting
      event_ok_untitled)
     (simp add: meeting_def untitled_def property_def)

subsection \<open>C4: the kinds of failure\<close>

text \<open>
  Claim C4 says that a 401 response fails with an auth-expired error of a kind
  distinct from the failure for other statuses. The function throws the same kind,
  \<^verbatim>\<open>Error\<close>, for 401 and for 500; no other kind exists in the code.
\<close>

theorem auth_failure_is_a_generic_error:
  "fst (fetchGoogleCalendarEvents (platform (Inr (error_response 401))) ''bad-token'')
     = Inl \<lparr>name = ''Error'', message = ''Google Calendar API error: 401''\<rparr> \<and>
   fst (fetchGoogleCalendarEvents (platform (Inr (error_response 500))) ''bad-token'')
     = Inl \<lparr>name = ''Error'', message = ''Google Calendar API error: 500''\<rparr> \<and>
   name (projl (fst (fetchGoogleCalendarEvents (platform (Inr (error_response 401))) ''bad-token'')))
     = name (projl (fst (fetchGoogleCalendarEvents (platform (Inr (error_response 500)))
         ''bad-token'')))"
  by (simp add: fetchGoogleCalendarEvents_def Let_def platform_sel error_response_def Error_def
      string_of_nat_401 string_of_nat_500)

text \<open>
  Claim C4, amended. Every response whose \<^verbatim>\<open>ok\<close> flag is not set, 401 included,
  fails with the one kind \<^verbatim>\<open>Error\<close>; two such failures are the same error exactly
  when the status codes are the same, so an expired credential can be told from
  another failure by the status code in the message only.
\<close>

theorem one_error_kind_for_every_status:
  "fetch e1 (build_request e1 tok1) = Inr res1 \<Longrightarrow> \<not> ok res1 \<Longrightarrow>
   fetch e2 (build_request e2 tok2) = Inr res2 \<Longrightarrow> \<not> ok res2 \<Longrightarrow>
   isl (fst (fetchGoogleCalendarEvents e1 tok1)) \<and>
   isl (fst (fetchGoogleCalendarEvents e2 tok2)) \<and>
   name (projl (fst (fetchGoogleCalendarEvents e1 tok1))) = ''Error'' \<and>
   name (projl (fst (fetchGoogleCalendarEvents e2 tok2))) = ''Error'' \<and>
   (projl (fst (fetchGoogleCalendarEvents e1 tok1)) = projl (fst (fetchGoogleCalendarEvents e2 tok2))
      \<longleftrightarrow> status res1 = status res2)"
  by (simp add: outcome_not_ok Error_def string_of_nat_inject)

theorem one_error_kind_for_every_status_witness:
  "fetch (platform (Inr (error_response 401)))
       (build_request (platform (Inr (error_response 401))) ''bad-token'')
     = Inr (error_response 401) \<and>
   \<not> ok (error_response 401) \<and>
   fetch (platform (Inr (error_response 500)))
       (build_request (platform (Inr (error_response 500))) ''bad-token'')
     = Inr (error_response 500) \<and>
   \<not> ok (error_response 500) \<and>
   name (projl (fst (fetchGoogleCalendarEvents (platform (Inr (error_response 401))) ''bad-token'')))
     = ''Error'' \<and>
   name (projl (fst (fetchGoogleCalendarEvents (platform (Inr (error_response 500))) ''bad-token'')))
     = ''Error'' \<and>
   projl (fst (fetchGoogleCalendarEvents (platform (Inr (error_response 401))) ''bad-token''))
     \<noteq> projl (fst (fetchGoogleCalendarEvents (platform (Inr (error_response 500))) ''bad-token''))"
  using one_error_kind_for_every_status [of "platform (Inr (error_response 401))" "''bad-token''"
      "error_response 401" "platform (Inr (error_response 500))" "''bad-token''"
      "error_response 500"]
  by (simp add: platform_sel error_response_def)

subsection \<open>C5: the properties of a normalized event\<close>

text \<open>
  Claim C5 says that every returned event carries a \<^verbatim>\<open>source\<close> and a
  \<^verbatim>\<open>sourceEventId\<close>. The event returned for the test's meeting has the six
  properties of \<^verbatim>\<open>CalendarEvent\<close> and neither of the two.
\<close>

theorem no_source_tag:
  "fst (fetchGoogleCalendarEvents (platform (Inr (ok_response (items_body [meeting]))))
          ''fake-token'')
     = Inr [\<lparr>id' = Some (JStr ''1''), title = JStr ''Meeting'',
             start = JStr ''2024-01-01T10:00:00Z'', end' = JStr ''2024-01-01T11:00:00Z'',
             description = None, location = None\<rparr>] \<and>
   map fst (CalendarEvent_props (projr (fst (fetchGoogleCalendarEvents
      (platform (Inr (ok_response (items_body [meeting])))) ''fake-token'')) ! 0))
     = [''id'', ''title'', ''start'', ''end'', ''description'', ''location''] \<and>
   map_of (CalendarEvent_props (projr (fst (fetchGoogleCalendarEvents
      (platform (Inr (ok_response (items_body [meeting])))) ''fake-token'')) ! 0)) ''source''
     = None \<and>
   map_of (CalendarEvent_props (projr (fst (fetchGoogleCalendarEvents
      (platform (Inr (ok_response (items_body [meeting])))) ''fake-token'')) ! 0)) ''sourceEventId''
     = None"
  by (simp add: outcome_platform_items event_ok_meeting event_of_meeting CalendarEvent_props_def)

text \<open>
  Claim C5, amended. Every normalized event that \<^verbatim>\<open>fetchGoogleCalendarEvents\<close>
  returns has the properties \<^verbatim>\<open>id\<close>, \<^verbatim>\<open>title\<close>, \<^verbatim>\<open>start\<close>, \<^verbatim>\<open>end\<close>,
  \<^verbatim>\<open>description\<close> and \<^verbatim>\<open>location\<close> and no other; its \<^verbatim>\<open>id\<close> is the id of the
  upstream event, the foreign system's id; it has no \<^verbatim>\<open>source\<close> and no
  \<^verbatim>\<open>sourceEventId\<close>. This is said of the i-th item of every body on which the
  function returns.
\<close>

theorem event_properties:
  assumes "fetch e (build_request e tok) = Inr res" and "ok res" and "json res = Inr body"
    and "conforms body" and "property body ''items'' = Some (JArr xs)" and "i < length xs"
  shows "\<not> isl (fst (fetchGoogleCalendarEvents e tok)) \<and>
     length (projr (fst (fetchGoogleCalendarEvents e tok))) = length xs \<and>
     map fst (CalendarEvent_props (projr (fst (fetchGoogleCalendarEvents e tok)) ! i))
       = [''id'', ''title'', ''start'', ''end'', ''description'', ''location''] \<and>
     map_of (CalendarEvent_props (projr (fst (fetchGoogleCalendarEvents e tok)) ! i)) ''id''
       = Some (property (xs ! i) ''id'') \<and>
     map_of (CalendarEvent_props (projr (fst (fetchGoogleCalendarEvents e tok)) ! i)) ''source''
       = None \<and>
     map_of (CalendarEvent_props (projr (fst (fetchGoogleCalendarEvents e tok)) ! i)) ''sourceEventId''
       = None"
  using assms(6)
  by (simp add: outcome_items [OF assms(1-5)] CalendarEvent_props_def event_of_def)

theorem event_properties_witness:
  "fetch (platform (Inr (ok_response (items_body [meeting, all_day]))))
       (build_request (platform (Inr (ok_response (items_body [meeting, all_day])))) ''fake-token'')
     = Inr (ok_response (items_body [meeting, all_day])) \<and>
   ok (ok_response (items_body [meeting, all_day])) \<and>
   json (ok_response (items_body [meeting, all_day])) = Inr (items_body [meeting, all_day]) \<and>
   conforms (items_body [meeting, all_day]) \<and>
   property (items_body [meeting, all_day]) ''items'' = Some (JArr [meeting, all_day]) \<and>
   (1::nat) < length [meeting, all_day] \<and>
   \<not> isl (fst (fetchGoogleCalendarEvents
                (platform (Inr (ok_response (items_body [meeting, all_day])))) ''fake-token'')) \<and>
   CalendarEvent_props (projr (fst (fetchGoogleCalendarEvents
                (platform (Inr (ok_response (items_body [meeting, all_day])))) ''fake-token'')) ! 1)
     = [(''id'', Some (JStr ''3'')), (''title'', Some (JStr ''All Day Event'')),
        (''start'', Some (JStr ''2024-01-03'')), (''end'', Some (JStr ''2024-01-04'')),
        (''description'', None), (''location'', None)]"
  using event_properties [of "platform (Inr (ok_response (items_body [meeting, all_day])))"
      "''fake-token''" "ok_response (items_body [meeting, all_day])"
      "items_body [meeting, all_day]" "[meeting, all_day]" 1]
  by (simp add: fetch_platform_ok conforms_items_body property_items_body event_ok_meeting
      event_ok_all_day outcome_platform_items event_of_all_day CalendarEvent_props_def)

subsection \<open>C6: the time window\<close>

text \<open>
  Claim C6. The function issues one request. Its \<^verbatim>\<open>timeMin\<close> is the current time,
  the clock as \<^verbatim>\<open>new Date()\<close> reads it, and its \<^verbatim>\<open>timeMax\<close> is the current time,
  the clock as \<^verbatim>\<open>Date.now()\<close> reads it on the next line, plus
  90 * 24 * 60 * 60 * 1000 milliseconds, which is 90 days; both are rendered by
  \<^verbatim>\<open>toISOString\<close>.
\<close>

theorem request_time_window:
  "snd (fetchGoogleCalendarEvents e tok) = [build_request e tok] \<and>
   map_of (searchParams (build_request e tok)) ''timeMin'' = Some (toISOString e (new_Date e)) \<and>
   map_of (searchParams (build_request e tok)) ''timeMax''
     = Some (toISOString e (Date_now e + 90 * 24 * 60 * 60 * 1000)) \<and>
   (90 * 24 * 60 * 60 * 1000 :: int) = 90 * 86400000"
  by (simp add: requests_issued searchParams_build_request)

theorem request_time_window_witness:
  "snd (fetchGoogleCalendarEvents (platform (Inr (ok_response (JObj [])))) ''fake-token'')
     = [build_request (platform (Inr (ok_response (JObj [])))) ''fake-token''] \<and>
   map_of (searchParams (build_request (platform (Inr (ok_response (JObj [])))) ''fake-token'')) ''timeMin''
     = Some ''2024-01-01T00:00:00.000Z'' \<and>
   map_of (searchParams (build_request (platform (Inr (ok_response (JObj [])))) ''fake-token'')) ''timeMax''
     = Some ''2024-03-31T00:00:00.002Z''"
  using request_time_window [of "platform (Inr (ok_response (JObj [])))" "''fake-token''"]
  by (simp add: platform_sel toISOString_utc_timeMin toISOString_utc_timeMax)

subsection \<open>C7: expansion and order\<close>

text \<open>
  Claim C7. The one request the function issues has \<^verbatim>\<open>singleEvents=true\<close> and
  \<^verbatim>\<open>orderBy=startTime\<close>. Whenever the function returns, the returned list keeps the
  provider's order: its events have, position by position, the ids of the provider's
  items and the starts that the provider reports for them: the \<^verbatim>\<open>start.dateTime\<close>
  of a timed item and the \<^verbatim>\<open>start.date\<close> of an all-day item. So whenever the provider's items are ordered by their start
  time, under any order of start values, the returned list is ordered by start.
\<close>

theorem request_expands_and_orders:
  "snd (fetchGoogleCalendarEvents e tok) = [build_request e tok] \<and>
   map_of (searchParams (build_request e tok)) ''singleEvents'' = Some ''true'' \<and>
   map_of (searchParams (build_request e tok)) ''orderBy'' = Some ''startTime'' \<and>
   (\<forall>res body xs.
      fetch e (build_request e tok) = Inr res \<and> ok res \<and> json res = Inr body \<and>
      conforms body \<and> property body ''items'' = Some (JArr xs) \<longrightarrow>
        \<not> isl (fst (fetchGoogleCalendarEvents e tok)) \<and>
        map id' (projr (fst (fetchGoogleCalendarEvents e tok)))
          = map (\<lambda>x. property x ''id'') xs \<and>
        map start (projr (fst (fetchGoogleCalendarEvents e tok))) = map provider_start xs \<and>
        (\<forall>R. sorted_wrt (\<lambda>a b. R (provider_start a) (provider_start b)) xs
           \<longrightarrow> sorted_wrt (\<lambda>a b. R (start a) (start b))
                 (projr (fst (fetchGoogleCalendarEvents e tok))))) \<and>
   (\<forall>x t. subproperty x ''start'' ''dateTime'' = Some (JStr t) \<and> t \<noteq> []
      \<longrightarrow> provider_start x = JStr t) \<and>
   (\<forall>x d. subproperty x ''start'' ''dateTime'' = None \<and>
      subproperty x ''start'' ''date'' = Some (JStr d) \<longrightarrow> provider_start x = JStr d)"
proof -
  have s: "start (event_of x) = provider_start x" for x
    by (simp add: event_of_def provider_start_def)
  have i: "id' (event_of x) = property x ''id''" for x
    by (simp add: event_of_def)
  have p: "(\<forall>x t. subproperty x ''start'' ''dateTime'' = Some (JStr t) \<and> t \<noteq> []
      \<longrightarrow> provider_start x = JStr t) \<and>
   (\<forall>x d. subproperty x ''start'' ''dateTime'' = None \<and>
      subproperty x ''start'' ''date'' = Some (JStr d) \<longrightarrow> provider_start x = JStr d)"
    by (simp add: provider_start_def provider_time_def or_else_def truthy_def)
  have "snd (fetchGoogleCalendarEvents e tok) = [build_request e tok] \<and>
   map_of (searchParams (build_request e tok)) ''singleEvents'' = Some ''true'' \<and>
   map_of (searchParams (build_request e tok)) ''orderBy'' = Some ''startTime'' \<and>
   (\<forall>res body xs.
      fetch e (build_request e tok) = Inr res \<and> ok res \<and> json res = Inr body \<and>
      conforms body \<and> property body ''items'' = Some (JArr xs) \<longrightarrow>
        \<not> isl (fst (fetchGoogleCalendarEvents e tok)) \<and>
        map id' (projr (fst (fetchGoogleCalendarEvents e tok)))
          = map (\<lambda>x. property x ''id'') xs \<and>
        map start (projr (fst (fetchGoogleCalendarEvents e tok))) = map provider_start xs \<and>
        (\<forall>R. sorted_wrt (\<lambda>a b. R (provider_start a) (provider_start b)) xs
           \<longrightarrow> sorted_wrt (\<lambda>a b. R (start a) (start b))
                 (projr (fst (fetchGoogleCalendarEvents e tok)))))"
    by (auto simp: requests_issued searchParams_build_request outcome_items sorted_wrt_map
        s i comp_def)
  with p show ?thesis by blast
qed

theorem request_expands_and_orders_witness:
  "map_of (searchParams (build_request (platform (Inr (ok_response (items_body [meeting, all_day]))))
      ''fake-token'')) ''singleEvents'' = Some ''true'' \<and>
   map_of (searchParams (build_request (platform (Inr (ok_response (items_body [meeting, all_day]))))
      ''fake-token'')) ''orderBy'' = Some ''startTime'' \<and>
   fetch (platform (Inr (ok_response (items_body [meeting, all_day]))))
       (build_request (platform (Inr (ok_response (items_body [meeting, all_day])))) ''fake-token'')
     = Inr (ok_response (items_body [meeting, all_day])) \<and>
   ok (ok_response (items_body [meeting, all_day])) \<and>
   json (ok_response (items_body [meeting, all_day])) = Inr (items_body [meeting, all_day]) \<and>
   conforms (items_body [meeting, all_day]) \<and>
   property (items_body [meeting, all_day]) ''items'' = Some (JArr [meeting, all_day]) \<and>
   map provider_start [meeting, all_day] = [JStr ''2024-01-01T10:00:00Z'', JStr ''2024-01-03''] \<and>
   sorted_wrt (\<lambda>a b. earlier (provider_start a) (provider_start b)) [meeting, all_day] \<and>
   map id' (projr (fst (fetchGoogleCalendarEvents
      (platform (Inr (ok_response (items_body [meeting, all_day])))) ''fake-token'')))
     = [Some (JStr ''1''), Some (JStr ''3'')] \<and>
   map start (projr (fst (fetchGoogleCalendarEvents
      (platform (Inr (ok_response (items_body [meeting, all_day])))) ''fake-token'')))
     = [JStr ''2024-01-01T10:00:00Z'', JStr ''2024-01-03''] \<and>
   sorted_wrt (\<lambda>a b. earlier (start a) (start b)) (projr (fst (fetchGoogleCalendarEvents
      (platform (Inr (ok_response (items_body [meeting, all_day])))) ''fake-token'')))"
proof -
  let ?p = "platform (Inr (ok_response (items_body [meeting, all_day])))"
  have h: "fetch ?p (build_request ?p ''fake-token'') = Inr (ok_response (items_body [meeting, all_day])) \<and>
      ok (ok_response (items_body [meeting, all_day])) \<and>
      json (ok_response (items_body [meeting, all_day])) = Inr (items_body [meeting, all_day]) \<and>
      conforms (items_body [meeting, all_day]) \<and>
      property (items_body [meeting, all_day]) ''items'' = Some (JArr [meeting, all_day])"
    by (simp add: fetch_platform_ok conforms_items_body property_items_body event_ok_meeting
        event_ok_all_day)
  have o: "sorted_wrt (\<lambda>a b. earlier (provider_start a) (provider_start b)) [meeting, all_day]"
    by (simp add: provider_start_meeting provider_start_all_day earlier_def)
  have ids: "map (\<lambda>x. property x ''id'') [meeting, all_day] = [Some (JStr ''1''), Some (JStr ''3'')]"
    by (simp add: meeting_def all_day_def property_def)
  from request_expands_and_orders [of ?p "''fake-token''"] h o
  have "map id' (projr (fst (fetchGoogleCalendarEvents ?p ''fake-token'')))
          = map (\<lambda>x. property x ''id'') [meeting, all_day] \<and>
        map start (projr (fst (fetchGoogleCalendarEvents ?p ''fake-token'')))
          = map provider_start [meeting, all_day] \<and>
        sorted_wrt (\<lambda>a b. earlier (start a) (start b))
          (projr (fst (fetchGoogleCalendarEvents ?p ''fake-token'')))"
    by blast
  with request_expands_and_orders [of ?p "''fake-token''"] h o ids show ?thesis
    by (simp add: provider_start_meeting provider_start_all_day)
qed

subsection \<open>C9: a body without items\<close>

text \<open>
  Claim C9 says that the function never throws on a successful response whose body
  lacks \<^verbatim>\<open>items\<close>. The JSON body null has no \<^verbatim>\<open>items\<close>, and reading
  \<^verbatim>\<open>data.items\<close> of it at line 27 throws a \<^verbatim>\<open>TypeError\<close>.
\<close>

theorem null_body_throws:
  "fst (fetchGoogleCalendarEvents (platform (Inr (ok_response JNull))) ''fake-token'')
     = Inl \<lparr>name = ''TypeError'',
            message = ''Cannot read properties of null (reading '' @ quoted ''items'' @ '')''\<rparr>"
  by (simp add: outcome_parsed [OF fetch_platform_ok] get_def TypeError_def)

text \<open>
  Claim C9, amended. For every response with \<^verbatim>\<open>ok\<close> set whose JSON body is not null
  and has no \<^verbatim>\<open>items\<close>, or has it null or otherwise falsy,
  \<^verbatim>\<open>fetchGoogleCalendarEvents\<close> returns the empty list and does not throw.
\<close>

theorem missing_items_returns_empty:
  "fetch e (build_request e tok) = Inr res \<Longrightarrow> ok res \<Longrightarrow> json res = Inr body \<Longrightarrow>
   body \<noteq> JNull \<Longrightarrow> \<not> truthy (property body ''items'') \<Longrightarrow>
   fst (fetchGoogleCalendarEvents e tok) = Inr []"
  by (rule outcome_no_items)

theorem missing_items_returns_empty_witness:
  "fetch (platform (Inr (ok_response (JObj []))))
       (build_request (platform (Inr (ok_response (JObj [])))) ''fake-token'')
     = Inr (ok_response (JObj [])) \<and>
   ok (ok_response (JObj [])) \<and> json (ok_response (JObj [])) = Inr (JObj []) \<and>
   JObj [] \<noteq> JNull \<and> property (JObj []) ''items'' = None \<and>
   \<not> truthy (property (JObj []) ''items'') \<and>
   fst (fetchGoogleCalendarEvents (platform (Inr (ok_response (JObj [])))) ''fake-token'') = Inr [] \<and>
   property (JObj [(''items'', JNull)]) ''items'' = Some JNull \<and>
   \<not> truthy (property (JObj [(''items'', JNull)]) ''items'') \<and>
   fst (fetchGoogleCalendarEvents (platform (Inr (ok_response (JObj [(''items'', JNull)]))))
          ''fake-token'') = Inr []"
  using missing_items_returns_empty [of "platform (Inr (ok_response (JObj [])))" "''fake-token''"
      "ok_response (JObj [])" "JObj []"]
    missing_items_returns_empty [of "platform (Inr (ok_response (JObj [(''items'', JNull)])))"
      "''fake-token''" "ok_response (JObj [(''items'', JNull)])" "JObj [(''items'', JNull)]"]
  by (simp add: fetch_platform_ok property_def truthy_def)

section \<open>Claims about the handler \<open>GET\<close>\<close>

text \<open>
  Claim C10 says that the handler never propagates an exception. When \<^verbatim>\<open>auth()\<close>
  rejects, the handler rejects with the same error, since the call stands before the
  \<^verbatim>\<open>try\<close> block.
\<close>

theorem GET_propagates_auth_rejection:
  "GET (platform (Inr (ok_response (items_body [meeting]))))
       (Inl \<lparr>name = ''Error'', message = ''session lookup failed''\<rparr>)
     = (Inl \<lparr>name = ''Error'', message = ''session lookup failed''\<rparr>, [])"
  by (simp add: GET_def)

text \<open>
  Claim C10, amended. A rejection of \<^verbatim>\<open>auth()\<close> is a rejection of the handler,
  with no request issued. Once \<^verbatim>\<open>auth()\<close> has resolved, the handler propagates
  no exception: when the session has no access token (a null session, a missing or an
  empty token) it answers 401 with the error \<^verbatim>\<open>Unauthorized\<close> and issues no request;
  when the provider fetch throws it answers 500 with the error
  \<^verbatim>\<open>Failed to fetch events\<close>; otherwise it answers 200 with the fetched events.
\<close>

theorem GET_responses:
  "(\<not> truthy_str (case sess of None \<Rightarrow> None | Some s \<Rightarrow> accessToken s) \<longrightarrow>
      GET e (Inr sess) = (Inr \<lparr>r_status = 401, r_body = ErrorBody ''Unauthorized''\<rparr>, [])) \<and>
   (\<forall>s tok. sess = Some s \<and> accessToken s = Some tok \<and> tok \<noteq> [] \<longrightarrow>
      snd (GET e (Inr sess)) = snd (fetchGoogleCalendarEvents e tok) \<and>
      (\<forall>err. fst (fetchGoogleCalendarEvents e tok) = Inl err \<longrightarrow>
         fst (GET e (Inr sess))
           = Inr \<lparr>r_status = 500, r_body = ErrorBody ''Failed to fetch events''\<rparr>) \<and>
      (\<forall>evs. fst (fetchGoogleCalendarEvents e tok) = Inr evs \<longrightarrow>
         fst (GET e (Inr sess)) = Inr \<lparr>r_status = 200, r_body = EventsBody evs\<rparr>)) \<and>
   \<not> isl (fst (GET e (Inr sess))) \<and>
   GET e (Inl rejection) = (Inl rejection, [])"
  by (auto simp: GET_def truthy_str_def truthy_def split: option.splits prod.splits sum.splits)

theorem GET_responses_witness:
  "\<not> truthy_str (case Some \<lparr>accessToken = None\<rparr> of None \<Rightarrow> None | Some s \<Rightarrow> accessToken s) \<and>
   GET (platform (Inr (ok_response (items_body [meeting])))) (Inr (Some \<lparr>accessToken = None\<rparr>))
     = (Inr \<lparr>r_status = 401, r_body = ErrorBody ''Unauthorized''\<rparr>, []) \<and>
   GET (platform (Inr (ok_response (items_body [meeting])))) (Inr None)
     = (Inr \<lparr>r_status = 401, r_body = ErrorBody ''Unauthorized''\<rparr>, []) \<and>
   GET (platform (Inr (ok_response (items_body [meeting])))) (Inr (Some \<lparr>accessToken = Some ''''\<rparr>))
     = (Inr \<lparr>r_status = 401, r_body = ErrorBody ''Unauthorized''\<rparr>, []) \<and>
   fst (fetchGoogleCalendarEvents (platform (Inr (error_response 401))) ''bad-token'')
     = Inl \<lparr>name = ''Error'', message = ''Google Calendar API error: 401''\<rparr> \<and>
   fst (GET (platform (Inr (error_response 401))) (Inr (Some \<lparr>accessToken = Some ''bad-token''\<rparr>)))
     = Inr \<lparr>r_status = 500, r_body = ErrorBody ''Failed to fetch events''\<rparr> \<and>
   fst (fetchGoogleCalendarEvents (platform (Inr (ok_response (items_body [meeting])))) ''fake-token'')
     = Inr [\<lparr>id' = Some (JStr ''1''), title = JStr ''Meeting'',
             start = JStr ''2024-01-01T10:00:00Z'', end' = JStr ''2024-01-01T11:00:00Z'',
             description = None, location = None\<rparr>] \<and>
   fst (GET (platform (Inr (ok_response (items_body [meeting]))))
          (Inr (Some \<lparr>accessToken = Some ''fake-token''\<rparr>)))
     = Inr \<lparr>r_status = 200, r_body = EventsBody [\<lparr>id' = Some (JStr ''1''), title = JStr ''Meeting'',
             start = JStr ''2024-01-01T10:00:00Z'', end' = JStr ''2024-01-01T11:00:00Z'',
             description = None, location = None\<rparr>]\<rparr> \<and>
   snd (GET (platform (Inr (ok_response (items_body [meeting]))))
          (Inr (Some \<lparr>accessToken = Some ''fake-token''\<rparr>)))
     = [build_request (platform (Inr (ok_response (items_body [meeting])))) ''fake-token'']"
  using GET_responses [of "Some \<lparr>accessToken = None\<rparr>" "platform (Inr (ok_response (items_body [meeting])))"]
    GET_responses [of None "platform (Inr (ok_response (items_body [meeting])))"]
    GET_responses [of "Some \<lparr>accessToken = Some ''''\<rparr>"
      "platform (Inr (ok_response (items_body [meeting])))"]
    GET_responses [of "Some \<lparr>accessToken = Some ''bad-token''\<rparr>" "platform (Inr (error_response 401))"]
    GET_responses [of "Some \<lparr>accessToken = Some ''fake-token''\<rparr>"
      "platform (Inr (ok_response (items_body [meeting])))"]
  by (simp add: truthy_str_def truthy_def outcome_platform_items event_ok_meeting
      event_of_meeting requests_issued outcome_not_ok [of _ _ "error_response 401"]
      platform_sel error_response_def Error_def string_of_nat_401)

section \<open>Claims about the reconciler\<close>




end
